theory Spec2Isabelle
  imports Complex_Main "HOL-Library.AList" "HOL-Library.Sublist"
begin

section \<open>Calendar dates\<close>

text \<open>
  A JavaScript \<open>Date\<close> is modelled by its local calendar fields: the full year, the month
  (1 to 12), the day of the month and the milliseconds elapsed since local midnight. Local
  time is taken to be UTC without daylight-saving shifts, so comparing two dates by their
  timestamps is the lexicographic comparison of these fields.
\<close>

record Date =
  year :: int
  month :: nat
  day :: nat
  ms :: nat

definition isLeapYear :: "int \<Rightarrow> bool" where
  "isLeapYear y = (y mod 4 = 0 \<and> (y mod 100 \<noteq> 0 \<or> y mod 400 = 0))"

definition getDaysInMonth :: "int \<Rightarrow> nat \<Rightarrow> nat" where
  "getDaysInMonth y m =
     (if m = 2 then (if isLeapYear y then 29 else 28)
      else if m = 4 \<or> m = 6 \<or> m = 9 \<or> m = 11 then 30 else 31)"

definition validDate :: "Date \<Rightarrow> bool" where
  "validDate d = (1 \<le> month d \<and> month d \<le> 12 \<and> 1 \<le> day d \<and>
     day d \<le> getDaysInMonth (year d) (month d) \<and> ms d < 86400000)"

text \<open>\<open>a <= b\<close> and \<open>a > b\<close> on two dates.\<close>

definition dateLe :: "Date \<Rightarrow> Date \<Rightarrow> bool" where
  "dateLe a b =
     (year a < year b \<or> (year a = year b \<and>
       (month a < month b \<or> (month a = month b \<and>
         (day a < day b \<or> (day a = day b \<and> ms a \<le> ms b))))))"

definition dateGt :: "Date \<Rightarrow> Date \<Rightarrow> bool" where
  "dateGt a b = (\<not> dateLe a b)"

text \<open>The date-fns functions the screens import.\<close>

definition startOfMonth :: "Date \<Rightarrow> Date" where
  "startOfMonth d = d\<lparr>day := 1, ms := 0\<rparr>"

definition endOfMonth :: "Date \<Rightarrow> Date" where
  "endOfMonth d = d\<lparr>day := getDaysInMonth (year d) (month d), ms := 86399999\<rparr>"

definition nextDay :: "Date \<Rightarrow> Date" where
  "nextDay d =
     (if day d < getDaysInMonth (year d) (month d) then d\<lparr>day := day d + 1\<rparr>
      else if month d < 12 then d\<lparr>month := month d + 1, day := 1\<rparr>
      else d\<lparr>year := year d + 1, month := 1, day := 1\<rparr>)"

definition prevDay :: "Date \<Rightarrow> Date" where
  "prevDay d =
     (if 1 < day d then d\<lparr>day := day d - 1\<rparr>
      else if 1 < month d
        then d\<lparr>month := month d - 1, day := getDaysInMonth (year d) (month d - 1)\<rparr>
      else d\<lparr>year := year d - 1, month := 12, day := 31\<rparr>)"

definition addDays :: "Date \<Rightarrow> nat \<Rightarrow> Date" where
  "addDays d n = (nextDay ^^ n) d"

definition subDays :: "Date \<Rightarrow> nat \<Rightarrow> Date" where
  "subDays d n = (prevDay ^^ n) d"

text \<open>
  \<open>addMonths\<close> keeps the day of the month unless the target month is shorter, in which case
  it returns the last day of the target month; the time of day is kept.
\<close>

definition addMonths :: "Date \<Rightarrow> int \<Rightarrow> Date" where
  "addMonths d n =
     (let i = year d * 12 + (int (month d) - 1) + n;
          y = i div 12;
          m = nat (i mod 12) + 1
      in d\<lparr>year := y, month := m, day := min (day d) (getDaysInMonth y m)\<rparr>)"

definition subMonths :: "Date \<Rightarrow> int \<Rightarrow> Date" where
  "subMonths d n = addMonths d (- n)"

text \<open>Formatting: \<open>format(d, 'yyyy-MM-dd')\<close>, \<open>format(d, 'dd')\<close> and \<open>format(d, 'yyyy-MM')\<close>.\<close>

definition digitChar :: "nat \<Rightarrow> char" where
  "digitChar n = ''0123456789'' ! n"

fun digits :: "nat \<Rightarrow> string" where
  "digits n = (if n < 10 then [digitChar n] else digits (n div 10) @ [digitChar (n mod 10)])"

declare digits.simps [simp del]

definition addLeadingZeros :: "nat \<Rightarrow> nat \<Rightarrow> string" where
  "addLeadingZeros n targetLength =
     replicate (targetLength - length (digits n)) (CHR ''0'') @ digits n"

definition format_yyyy :: "Date \<Rightarrow> string" where
  "format_yyyy d = addLeadingZeros (nat (if 0 < year d then year d else 1 - year d)) 4"

definition format_MM :: "Date \<Rightarrow> string" where
  "format_MM d = addLeadingZeros (month d) 2"

definition format_dd :: "Date \<Rightarrow> string" where
  "format_dd d = addLeadingZeros (day d) 2"

definition format_yyyy_MM_dd :: "Date \<Rightarrow> string" where
  "format_yyyy_MM_dd d = format_yyyy d @ ''-'' @ format_MM d @ ''-'' @ format_dd d"

definition format_yyyy_MM :: "Date \<Rightarrow> string" where
  "format_yyyy_MM d = format_yyyy d @ ''-'' @ format_MM d"

text \<open>\<open>getTime\<close>: milliseconds since 1970-01-01 (days from the civil date, then the time of day).\<close>

definition daysFromCivil :: "int \<Rightarrow> nat \<Rightarrow> nat \<Rightarrow> int" where
  "daysFromCivil y m d =
     (let y' = (if m \<le> 2 then y - 1 else y);
          era = y' div 400;
          yoe = y' - era * 400;
          mp = (if 2 < m then int m - 3 else int m + 9);
          doy = (153 * mp + 2) div 5 + int d - 1;
          doe = yoe * 365 + yoe div 4 - yoe div 100 + doy
      in era * 146097 + doe - 719468)"

definition getTime :: "Date \<Rightarrow> int" where
  "getTime d = daysFromCivil (year d) (month d) (day d) * 86400000 + int (ms d)"

definition getHours :: "Date \<Rightarrow> nat" where
  "getHours d = ms d div 3600000"

definition getMinutes :: "Date \<Rightarrow> nat" where
  "getMinutes d = (ms d div 60000) mod 60"

definition setHours :: "Date \<Rightarrow> nat \<Rightarrow> Date" where
  "setHours d h = d\<lparr>ms := h * 3600000 + ms d mod 3600000\<rparr>"

definition setMinutes :: "Date \<Rightarrow> nat \<Rightarrow> Date" where
  "setMinutes d m = d\<lparr>ms := (ms d div 3600000) * 3600000 + m * 60000 + ms d mod 60000\<rparr>"


section \<open>The stored day records\<close>

record FoodEntry =
  id' :: string
  name :: string
  time :: int

text \<open>
  \<open>DayData\<close> is the object that \<open>saveDayData\<close> serialises and that every reader obtains from
  \<open>JSON.parse\<close>. Numbers are integers; a \<open>moodRating\<close> that is missing from the stored object
  (\<open>undefined\<close> or \<open>null\<close>) is \<open>None\<close>.
\<close>

record DayData =
  foodEntries :: "FoodEntry list"
  workoutDone :: bool
  workoutNote :: string
  moodRating :: "int option"
  moodNote :: string

text \<open>
  AsyncStorage: the keys with their values, in the backend's enumeration order. The values
  are held in parsed form: the text layer of \<open>JSON.stringify\<close> and \<open>JSON.parse\<close> belongs to
  the platform and is not modelled.
\<close>

type_synonym AsyncStorage = "(string \<times> DayData) list"

definition getItem :: "AsyncStorage \<Rightarrow> string \<Rightarrow> DayData option" where
  "getItem store key = map_of store key"

definition setItem :: "string \<Rightarrow> DayData \<Rightarrow> AsyncStorage \<Rightarrow> AsyncStorage" where
  "setItem key v store = AList.update key v store"

definition getAllKeys :: "AsyncStorage \<Rightarrow> string list" where
  "getAllKeys store = map fst store"

text \<open>JavaScript truthiness of a number (\<open>0\<close> and a missing value are falsy) and of an array.\<close>

fun truthyNumber :: "int option \<Rightarrow> bool" where
  "truthyNumber None = False"
| "truthyNumber (Some n) = (n \<noteq> 0)"

definition truthyArray :: "'a list \<Rightarrow> bool" where
  "truthyArray xs = True"


section \<open>The daily log screen\<close>

text \<open>The state hooks of \<open>DailyLog\<close>: the five fields of the day's record and the screen's own.\<close>

record DailyLog = DayData +
  selectedDate :: Date
  modalVisible :: bool
  editingEntry :: "FoodEntry option"

definition initialDailyLog :: "Date \<Rightarrow> DailyLog" where
  "initialDailyLog now =
     \<lparr>foodEntries = [], workoutDone = False, workoutNote = [], moodRating = Some 5,
      moodNote = [], selectedDate = now, modalVisible = False, editingEntry = None\<rparr>"

definition getStorageKey :: "Date \<Rightarrow> string" where
  "getStorageKey d = ''dayData_'' @ format_yyyy_MM_dd d"

definition loadDayData :: "Date \<Rightarrow> AsyncStorage \<Rightarrow> DailyLog \<Rightarrow> DailyLog" where
  "loadDayData d store st =
     (case getItem store (getStorageKey d) of
        Some dayData \<Rightarrow>
          st\<lparr>foodEntries := foodEntries dayData,
             workoutDone := workoutDone dayData,
             workoutNote := workoutNote dayData,
             moodRating := moodRating dayData,
             moodNote := moodNote dayData\<rparr>
      | None \<Rightarrow>
          st\<lparr>foodEntries := [],
             workoutDone := False,
             workoutNote := [],
             moodRating := Some 5,
             moodNote := []\<rparr>)"

text \<open>The object literal that \<open>saveDayData\<close> builds from the state hooks.\<close>

definition dayDataOf :: "DailyLog \<Rightarrow> DayData" where
  "dayDataOf st =
     \<lparr>foodEntries = foodEntries st, workoutDone = workoutDone st,
      workoutNote = workoutNote st, moodRating = moodRating st, moodNote = moodNote st\<rparr>"

definition saveDayData :: "DailyLog \<Rightarrow> AsyncStorage \<Rightarrow> AsyncStorage" where
  "saveDayData st store = setItem (getStorageKey (selectedDate st)) (dayDataOf st) store"


text \<open>
  \<open>handleDeleteFood\<close>, \<open>handleEditFood\<close>, \<open>handleCloseModal\<close> and \<open>handleSaveEntry\<close>. The
  modal hands \<open>handleSaveEntry\<close> the food name and a \<open>Date\<close>; \<open>now\<close> is the value of
  \<open>Date.now()\<close>.
\<close>

definition handleDeleteFood :: "string \<Rightarrow> DailyLog \<Rightarrow> DailyLog" where
  "handleDeleteFood i st = st\<lparr>foodEntries := filter (\<lambda>entry. id' entry \<noteq> i) (foodEntries st)\<rparr>"

definition handleEditFood :: "FoodEntry \<Rightarrow> DailyLog \<Rightarrow> DailyLog" where
  "handleEditFood entry st = st\<lparr>editingEntry := Some entry, modalVisible := True\<rparr>"

definition handleCloseModal :: "DailyLog \<Rightarrow> DailyLog" where
  "handleCloseModal st = st\<lparr>modalVisible := False, editingEntry := None\<rparr>"

definition handleSaveEntry :: "int \<Rightarrow> string \<Rightarrow> Date \<Rightarrow> DailyLog \<Rightarrow> DailyLog" where
  "handleSaveEntry now entryName entryTime st =
     (let adjustedTime =
            setMinutes (setHours (selectedDate st) (getHours entryTime)) (getMinutes entryTime)
      in case editingEntry st of
           Some editing \<Rightarrow>
             st\<lparr>foodEntries :=
                  map (\<lambda>item. if id' item = id' editing
                              then item\<lparr>name := entryName, time := getTime adjustedTime\<rparr>
                              else item)
                    (foodEntries st),
                editingEntry := None\<rparr>
         | None \<Rightarrow>
             st\<lparr>foodEntries :=
                  sort_key time
                    (foodEntries st @
                      [\<lparr>id' = digits (nat now), name = entryName, time = getTime adjustedTime\<rparr>])\<rparr>)"

text \<open>
  The two effects of \<open>DailyLog\<close> after \<open>selectedDate\<close> has changed to \<open>d\<close> (and at mount). In
  the commit that carries the new date the load effect issues its \<open>getItem\<close> and the save
  effect, whose callback depends on \<open>selectedDate\<close>, writes the fields the state still holds
  under the new key. The storage backend serves requests in the order they were issued, so
  the read sees the store as it was before that write. When the read resolves,
  \<open>loadDayData\<close> sets the five fields (\<open>foodEntries\<close> always to a fresh array), and the save
  effect runs again on the loaded fields.
\<close>

definition afterDateChange :: "Date \<Rightarrow> DailyLog \<times> AsyncStorage \<Rightarrow> DailyLog \<times> AsyncStorage" where
  "afterDateChange d p =
     (let st1 = (fst p)\<lparr>selectedDate := d\<rparr>;
          store1 = saveDayData st1 (snd p);
          st2 = loadDayData d (snd p) st1;
          store2 = saveDayData st2 store1
      in (st2, store2))"

definition handleDateChange :: "int \<Rightarrow> DailyLog \<times> AsyncStorage \<Rightarrow> DailyLog \<times> AsyncStorage" where
  "handleDateChange days p =
     afterDateChange
       (if 0 < days then addDays (selectedDate (fst p)) (nat days)
        else subDays (selectedDate (fst p)) (nat \<bar>days\<bar>)) p"


section \<open>The statistics screen\<close>

datatype Trend = Up | Down | Same

datatype SortBy = ByName | ByScore

datatype Direction = Prev | Next

record FoodStat =
  totalScore :: int
  occurrences :: nat
  averageScore :: rat

text \<open>
  \<open>FoodMoodData\<close> is a plain object used as a dictionary: its own properties, in insertion
  order.
\<close>

type_synonym FoodMoodData = "(string \<times> FoodStat) list"

record DailyMoodData =
  date :: string
  score :: int

record Stats =
  loading :: bool
  currentAverage :: "rat option"
  previousAverage :: "rat option"
  trend :: "Trend option"
  searchQuery :: string
  foodMoodData :: FoodMoodData
  sortBy :: SortBy
  dailyMoodData :: "DailyMoodData list"
  selectedMonth :: Date
  chartLoading :: bool

definition initialStats :: "Date \<Rightarrow> Stats" where
  "initialStats now =
     \<lparr>loading = True, currentAverage = None, previousAverage = None, trend = None,
      searchQuery = [], foodMoodData = [], sortBy = ByScore, dailyMoodData = [],
      selectedMonth = now, chartLoading = False\<rparr>"

subsection \<open>Iterating over days\<close>

lemma getDaysInMonth_le_31: "getDaysInMonth y m \<le> 31"
  by (simp add: getDaysInMonth_def)

lemma getDaysInMonth_ge_28: "28 \<le> getDaysInMonth y m"
  by (simp add: getDaysInMonth_def)

lemma addDays_1: "addDays d 1 = nextDay d"
  by (simp add: addDays_def)

lemma subDays_1: "subDays d 1 = prevDay d"
  by (simp add: subDays_def)

lemma addDays_Suc_0: "addDays d (Suc 0) = nextDay d"
  by (simp add: addDays_def)

lemma subDays_Suc_0: "subDays d (Suc 0) = prevDay d"
  by (simp add: subDays_def)

lemma nextDay_decreases:
  assumes "year cur \<le> year fin"
  shows "((nextDay cur, fin), (cur, fin)) \<in>
           measures [\<lambda>p. nat (year (snd p) + 1 - year (fst p)),
                     \<lambda>p. 12 - month (fst p), \<lambda>p. 31 - day (fst p)]"
proof -
  have "getDaysInMonth (year cur) (month cur) \<le> 31"
    by (rule getDaysInMonth_le_31)
  with assms show ?thesis
    by (auto simp: nextDay_def)
qed

lemma dateLe_year: "dateLe a b \<Longrightarrow> year a \<le> year b"
  by (auto simp: dateLe_def)

text \<open>
  \<open>eachDayOfInterval\<close>: the days from the start of the interval, each at midnight, while
  they do not pass its end.
\<close>

function eachDayLoop :: "Date \<Rightarrow> Date \<Rightarrow> Date list" where
  "eachDayLoop cur fin =
     (if dateLe cur fin then cur # eachDayLoop (addDays cur 1) fin else [])"
  by pat_completeness auto
termination
proof (relation "measures [\<lambda>p. nat (year (snd p) + 1 - year (fst p)),
                           \<lambda>p. 12 - month (fst p), \<lambda>p. 31 - day (fst p)]")
  show "wf (measures [\<lambda>p. nat (year (snd p) + 1 - year (fst p)),
                      \<lambda>p. 12 - month (fst p), \<lambda>p. 31 - day (fst p)])"
    by simp
next
  fix cur fin :: Date
  assume "dateLe cur fin"
  then have "year cur \<le> year fin"
    by (rule dateLe_year)
  then show "((addDays cur 1, fin), (cur, fin)) \<in>
      measures [\<lambda>p. nat (year (snd p) + 1 - year (fst p)),
                \<lambda>p. 12 - month (fst p), \<lambda>p. 31 - day (fst p)]"
    unfolding addDays_1 by (rule nextDay_decreases)
qed

declare eachDayLoop.simps [simp del]

definition eachDayOfInterval :: "Date \<Rightarrow> Date \<Rightarrow> Date list" where
  "eachDayOfInterval start fin = eachDayLoop (start\<lparr>ms := 0\<rparr>) fin"

subsection \<open>The chart series\<close>

definition loadChartDataForMonth :: "Date \<Rightarrow> AsyncStorage \<Rightarrow> Stats \<Rightarrow> Stats" where
  "loadChartDataForMonth d store st =
     (let monthStart = startOfMonth d;
          monthEnd = endOfMonth d;
          daysInMonth = eachDayOfInterval monthStart monthEnd;
          dailyMoods =
            map (\<lambda>day.
                   case getItem store (''dayData_'' @ format_yyyy_MM_dd day) of
                     Some dayData \<Rightarrow>
                       if truthyNumber (moodRating dayData)
                       then \<lparr>date = format_dd day, score = the (moodRating dayData)\<rparr>
                       else \<lparr>date = format_dd day, score = 0\<rparr>
                   | None \<Rightarrow> \<lparr>date = format_dd day, score = 0\<rparr>)
              daysInMonth
      in st\<lparr>dailyMoodData := dailyMoods, chartLoading := False\<rparr>)"

definition handleMonthChange :: "Direction \<Rightarrow> Date \<Rightarrow> AsyncStorage \<Rightarrow> Stats \<Rightarrow> Stats" where
  "handleMonthChange direction now store st =
     (let currentMonth = selectedMonth st;
          newMonth = (if direction = Prev then subMonths currentMonth 1
                      else addMonths currentMonth 1)
      in if direction = Next \<and> dateGt newMonth now then st
         else (loadChartDataForMonth newMonth store st)\<lparr>selectedMonth := newMonth\<rparr>)"

text \<open>The next-month button is disabled while \<open>isCurrentMonth\<close> holds.\<close>

definition isCurrentMonth :: "Date \<Rightarrow> Stats \<Rightarrow> bool" where
  "isCurrentMonth now st = (format_yyyy_MM (selectedMonth st) = format_yyyy_MM now)"

definition pressNextMonth :: "Date \<Rightarrow> AsyncStorage \<Rightarrow> Stats \<Rightarrow> Stats" where
  "pressNextMonth now store st =
     (if isCurrentMonth now st then st else handleMonthChange Next now store st)"

subsection \<open>Monthly averages, trend and food-mood correlation\<close>

lemma nextDay_lex:
  assumes "year cur \<le> yf"
  shows "nat (yf + 1 - year (nextDay cur)) < nat (yf + 1 - year cur) \<or>
     (year (nextDay cur) = year cur \<and>
       (12 - month (nextDay cur) < 12 - month cur \<or>
         (month (nextDay cur) = month cur \<and> 31 - day (nextDay cur) < 31 - day cur)))"
proof -
  have "getDaysInMonth (year cur) (month cur) \<le> 31"
    by (rule getDaysInMonth_le_31)
  with assms show ?thesis
    by (auto simp: nextDay_def)
qed

text \<open>The body of both \<open>while\<close> loops: the day's rating is pushed when it is truthy.\<close>

definition pushMood :: "AsyncStorage \<Rightarrow> Date \<Rightarrow> int list \<Rightarrow> int list" where
  "pushMood store currentDate moods =
     (case getItem store (''dayData_'' @ format_yyyy_MM_dd currentDate) of
        Some dayData \<Rightarrow>
          if truthyNumber (moodRating dayData) then moods @ [the (moodRating dayData)]
          else moods
      | None \<Rightarrow> moods)"

function currentMonthLoop ::
  "AsyncStorage \<Rightarrow> Date \<Rightarrow> Date \<Rightarrow> Date \<Rightarrow> int list \<Rightarrow> int list" where
  "currentMonthLoop store currentDate currentMonthEnd today moods =
     (if dateLe currentDate currentMonthEnd \<and> dateLe currentDate today
      then currentMonthLoop store (addDays currentDate 1) currentMonthEnd today
             (pushMood store currentDate moods)
      else moods)"
  by pat_completeness auto
termination
proof (relation "measures [\<lambda>(store, cur, fin, today, moods). nat (year fin + 1 - year cur),
                           \<lambda>(store, cur, fin, today, moods). 12 - month cur,
                           \<lambda>(store, cur, fin, today, moods). 31 - day cur]", goal_cases)
  case 1
  show ?case by simp
next
  case (2 store currentDate currentMonthEnd today moods)
  then have "year currentDate \<le> year currentMonthEnd"
    by (simp add: dateLe_year)
  from nextDay_lex [OF this] show ?case
    unfolding addDays_1 by auto
qed

function previousMonthLoop :: "AsyncStorage \<Rightarrow> Date \<Rightarrow> Date \<Rightarrow> int list \<Rightarrow> int list" where
  "previousMonthLoop store currentDate previousMonthEnd moods =
     (if dateLe currentDate previousMonthEnd
      then previousMonthLoop store (addDays currentDate 1) previousMonthEnd
             (pushMood store currentDate moods)
      else moods)"
  by pat_completeness auto
termination
proof (relation "measures [\<lambda>(store, cur, fin, moods). nat (year fin + 1 - year cur),
                           \<lambda>(store, cur, fin, moods). 12 - month cur,
                           \<lambda>(store, cur, fin, moods). 31 - day cur]", goal_cases)
  case 1
  show ?case by simp
next
  case (2 store currentDate previousMonthEnd moods)
  then have "year currentDate \<le> year previousMonthEnd"
    by (simp add: dateLe_year)
  from nextDay_lex [OF this] show ?case
    unfolding addDays_1 by auto
qed

declare currentMonthLoop.simps [simp del] previousMonthLoop.simps [simp del]

text \<open>\<open>moods.reduce((a, b) => a + b, 0) / moods.length\<close>, or \<open>null\<close> for no moods.\<close>

definition averageOf :: "int list \<Rightarrow> rat option" where
  "averageOf moods =
     (if 0 < length moods then Some (of_int (foldl (+) 0 moods) / of_nat (length moods))
      else None)"

definition determineTrend :: "rat option \<Rightarrow> rat option \<Rightarrow> Trend option \<Rightarrow> Trend option" where
  "determineTrend currentAvg previousAvg old =
     (if currentAvg \<noteq> None \<and> previousAvg \<noteq> None
      then (if the currentAvg > the previousAvg then Some Up
            else if the currentAvg < the previousAvg then Some Down
            else Some Same)
      else old)"

text \<open>\<open>toLowerCase\<close> on ASCII text.\<close>

definition lowerChar :: "char \<Rightarrow> char" where
  "lowerChar c =
     (case map_of (zip ''ABCDEFGHIJKLMNOPQRSTUVWXYZ'' ''abcdefghijklmnopqrstuvwxyz'') c of
        Some l \<Rightarrow> l
      | None \<Rightarrow> c)"

definition toLowerCase :: "string \<Rightarrow> string" where
  "toLowerCase s = map lowerChar s"

text \<open>
  \<open>foodMoodMap\<close> is created by the literal \<open>{}\<close>, so reading \<open>foodMoodMap[foodName]\<close> finds
  the properties of \<open>Object.prototype\<close> as well as the object's own. Each of them is a
  function or an object, hence truthy.
\<close>

definition objectPrototypeProperties :: "string list" where
  "objectPrototypeProperties =
     [''constructor'', ''__proto__'', ''hasOwnProperty'', ''isPrototypeOf'',
      ''propertyIsEnumerable'', ''toLocaleString'', ''toString'', ''valueOf'']"

text \<open>The three assignments to the stat of a food.\<close>

definition addScore :: "int \<Rightarrow> FoodStat \<Rightarrow> FoodStat" where
  "addScore rating s =
     (let s1 = s\<lparr>totalScore := totalScore s + rating\<rparr>;
          s2 = s1\<lparr>occurrences := occurrences s1 + 1\<rparr>
      in s2\<lparr>averageScore := of_int (totalScore s2) / of_nat (occurrences s2)\<rparr>)"

text \<open>
  The body of \<open>forEach\<close>. When the name is not an own property but is found on
  \<open>Object.prototype\<close>, the test \<open>!foodMoodMap[foodName]\<close> is false, no own property is
  created and the assignments land on the inherited value: the map keeps its properties.
\<close>

definition processEntry :: "int \<Rightarrow> FoodEntry \<Rightarrow> FoodMoodData \<Rightarrow> FoodMoodData" where
  "processEntry rating entry foodMoodMap =
     (let foodName = toLowerCase (name entry)
      in case map_of foodMoodMap foodName of
           Some s \<Rightarrow> AList.update foodName (addScore rating s) foodMoodMap
         | None \<Rightarrow>
             if foodName \<in> set objectPrototypeProperties then foodMoodMap
             else AList.update foodName
                    (addScore rating \<lparr>totalScore = 0, occurrences = 0, averageScore = 0\<rparr>)
                    foodMoodMap)"

text \<open>The body of the loop over the day keys.\<close>

definition processDay :: "AsyncStorage \<Rightarrow> string \<Rightarrow> FoodMoodData \<Rightarrow> FoodMoodData" where
  "processDay store key foodMoodMap =
     (case getItem store key of
        Some dayData \<Rightarrow>
          if truthyNumber (moodRating dayData) \<and> truthyArray (foodEntries dayData)
          then fold (processEntry (the (moodRating dayData))) (foodEntries dayData) foodMoodMap
          else foodMoodMap
      | None \<Rightarrow> foodMoodMap)"

definition foodMoodCorrelations :: "AsyncStorage \<Rightarrow> FoodMoodData" where
  "foodMoodCorrelations store =
     (let allDates = getAllKeys store;
          dayDataKeys = filter (prefix ''dayData_'') allDates
      in fold (processDay store) dayDataKeys [])"

definition calculateMoodAverages :: "Date \<Rightarrow> AsyncStorage \<Rightarrow> Stats \<Rightarrow> Stats" where
  "calculateMoodAverages today store st =
     (let currentMonthStart = startOfMonth today;
          currentMonthEnd = endOfMonth today;
          previousMonthStart = startOfMonth (subDays currentMonthStart 1);
          previousMonthEnd = endOfMonth (subDays currentMonthStart 1);
          st1 = loadChartDataForMonth (selectedMonth st) store (st\<lparr>loading := True\<rparr>);
          currentMonthMoods = currentMonthLoop store currentMonthStart currentMonthEnd today [];
          previousMonthMoods = previousMonthLoop store previousMonthStart previousMonthEnd [];
          currentAvg = averageOf currentMonthMoods;
          previousAvg = averageOf previousMonthMoods
      in st1\<lparr>currentAverage := currentAvg,
             previousAverage := previousAvg,
             trend := determineTrend currentAvg previousAvg (trend st1),
             foodMoodData := foodMoodCorrelations store,
             loading := False\<rparr>)"


subsection \<open>The monthly average as the specification words it\<close>

text \<open>
  The specification's reading of a monthly average: the ratings that are set (neither missing
  nor 0) on the given days of a month, and their arithmetic mean.
\<close>

definition spec_dayRatings :: "AsyncStorage \<Rightarrow> int \<Rightarrow> nat \<Rightarrow> nat \<Rightarrow> int list" where
  "spec_dayRatings store y m k =
     (case getItem store (getStorageKey \<lparr>year = y, month = m, day = k, ms = 0\<rparr>) of
        None \<Rightarrow> []
      | Some dayData \<Rightarrow>
          (case moodRating dayData of
             None \<Rightarrow> []
           | Some r \<Rightarrow> if r = 0 then [] else [r]))"

definition spec_mean :: "int list \<Rightarrow> rat option" where
  "spec_mean rs = (if rs = [] then None else Some (of_int (sum_list rs) / of_nat (length rs)))"

definition spec_previousMonth :: "Date \<Rightarrow> int \<times> nat" where
  "spec_previousMonth d =
     (if month d = 1 then (year d - 1, 12) else (year d, month d - 1))"


subsection \<open>The food-mood correlation as the specification words it\<close>

text \<open>
  The specification's reading of the food-mood correlation: every food entry of every stored
  day record with a set rating is a sample, the lower-cased food name with the day's rating;
  the stat of a food sums and counts its samples.
\<close>

definition spec_samples :: "AsyncStorage \<Rightarrow> (string \<times> int) list" where
  "spec_samples store =
     concat (map (\<lambda>(key, dayData).
                    if prefix ''dayData_'' key \<and> truthyNumber (moodRating dayData)
                    then map (\<lambda>entry. (toLowerCase (name entry), the (moodRating dayData)))
                           (foodEntries dayData)
                    else [])
               store)"

definition spec_stat :: "(string \<times> int) list \<Rightarrow> string \<Rightarrow> FoodStat option" where
  "spec_stat samples food =
     (let scores = map snd (filter (\<lambda>p. fst p = food) samples)
      in if scores = [] then None
         else Some \<lparr>totalScore = sum_list scores, occurrences = length scores,
                    averageScore = of_int (sum_list scores) / of_nat (length scores)\<rparr>)"


section \<open>Concrete days and stores\<close>

text \<open>A day with Toast at 08:00 and Soup at 12:00, the Toast entry being edited.\<close>

definition breakfastDay :: DailyLog where
  "breakfastDay =
     \<lparr>foodEntries = [\<lparr>id' = ''1709366000001'', name = ''Toast'', time = 1709366400000\<rparr>,
                     \<lparr>id' = ''1709380000002'', name = ''Soup'', time = 1709380800000\<rparr>],
      workoutDone = False, workoutNote = [], moodRating = Some 5, moodNote = [],
      selectedDate = \<lparr>year = 2024, month = 3, day = 2, ms = 0\<rparr>, modalVisible = True,
      editingEntry = Some \<lparr>id' = ''1709366000001'', name = ''Toast'', time = 1709366400000\<rparr>\<rparr>"

text \<open>The statistics screen as it was opened on 2024-03-31 at 10:00.\<close>

definition shownMarch :: Stats where
  "shownMarch = initialStats \<lparr>year = 2024, month = 3, day = 31, ms = 36000000\<rparr>"

text \<open>
  A store with ratings in March and April 2024 (one of them 0), and reference dates in and
  after April.
\<close>

definition twoMonths :: AsyncStorage where
  "twoMonths =
    [(''dayData_2024-03-10'',
      \<lparr>foodEntries = [], workoutDone = False, workoutNote = [], moodRating = Some 6,
       moodNote = []\<rparr>),
     (''dayData_2024-04-10'',
      \<lparr>foodEntries = [], workoutDone = False, workoutNote = [], moodRating = Some 8,
       moodNote = []\<rparr>),
     (''dayData_2024-04-12'',
      \<lparr>foodEntries = [], workoutDone = False, workoutNote = [], moodRating = Some 0,
       moodNote = []\<rparr>),
     (''dayData_2024-04-20'',
      \<lparr>foodEntries = [], workoutDone = False, workoutNote = [], moodRating = Some 9,
       moodNote = []\<rparr>)]"

definition midApril :: Date where
  "midApril = \<lparr>year = 2024, month = 4, day = 15, ms = 72000000\<rparr>"

definition lateApril :: Date where
  "lateApril = \<lparr>year = 2024, month = 4, day = 30, ms = 72000000\<rparr>"

definition earlyMay :: Date where
  "earlyMay = \<lparr>year = 2024, month = 5, day = 1, ms = 28800000\<rparr>"

text \<open>
  A day without a record in that store; and, on an empty store, the same day visited and
  then given the entry Tea at 16:00 (the save effect included).
\<close>

definition visitedDay :: Date where
  "visitedDay = \<lparr>year = 2024, month = 4, day = 14, ms = 72000000\<rparr>"

definition teaDay :: "DailyLog \<times> AsyncStorage" where
  "teaDay =
     (let visited = afterDateChange visitedDay (initialDailyLog midApril, []);
          st = handleSaveEntry 1713110400000 ''Tea''
                 \<lparr>year = 2024, month = 4, day = 15, ms = 57600000\<rparr> (fst visited)
      in (st, saveDayData st (snd visited)))"

text \<open>
  The scenario of the specification: Pizza on a day rated 8, Pizza and Salad on a day rated
  4. And a day rated 8 with the single entry Constructor.
\<close>

definition scenario :: AsyncStorage where
  "scenario =
    [(''dayData_2024-03-01'',
      \<lparr>foodEntries = [\<lparr>id' = ''1709294400001'', name = ''Pizza'', time = 1709294400000\<rparr>],
       workoutDone = False, workoutNote = [], moodRating = Some 8, moodNote = []\<rparr>),
     (''dayData_2024-03-02'',
      \<lparr>foodEntries = [\<lparr>id' = ''1709384400002'', name = ''Pizza'', time = 1709384400000\<rparr>,
                      \<lparr>id' = ''1709406000003'', name = ''Salad'', time = 1709406000000\<rparr>],
       workoutDone = False, workoutNote = [], moodRating = Some 4, moodNote = []\<rparr>)]"

definition constructorDay :: AsyncStorage where
  "constructorDay =
     [(''dayData_2024-03-01'',
       \<lparr>foodEntries =
          [\<lparr>id' = ''1709294400001'', name = ''Constructor'', time = 1709294400000\<rparr>],
        workoutDone = False, workoutNote = [], moodRating = Some 8, moodNote = []\<rparr>)]"


section \<open>Evaluation rules\<close>

lemmas date_eval = format_yyyy_MM_dd_def format_yyyy_def format_MM_def format_dd_def
  format_yyyy_MM_def addLeadingZeros_def digits.simps digitChar_def dateLe_def dateGt_def
  nextDay_def prevDay_def addDays_1 addDays_Suc_0 subDays_1 subDays_Suc_0
  getDaysInMonth_def isLeapYear_def startOfMonth_def endOfMonth_def
  getTime_def daysFromCivil_def getHours_def getMinutes_def setHours_def setMinutes_def

lemmas store_eval = getItem_def setItem_def getAllKeys_def getStorageKey_def

lemmas food_eval = foodMoodCorrelations_def processDay_def processEntry_def toLowerCase_def
  lowerChar_def addScore_def objectPrototypeProperties_def truthyArray_def


section \<open>Properties of the record store\<close>

lemma getItem_setItem: "getItem (setItem k v store) k' = (if k' = k then Some v else getItem store k')"
  by (simp add: getItem_def setItem_def update_conv')

lemma setItem_idem: "setItem k v (setItem k v store) = setItem k v store"
  by (simp add: setItem_def)

lemma distinct_setItem: "distinct (getAllKeys store) \<Longrightarrow> distinct (getAllKeys (setItem k v store))"
  by (simp add: getAllKeys_def setItem_def distinct_update)



section \<open>Loading and saving a day\<close>

text \<open>
  Claim C6, as stated (a date without a record loads with the mood rating unset), fails:
  loading 2024-03-01 from the empty store, in a state whose rating was 8, leaves the state
  with the rating 5, a truthy rating.
\<close>

theorem loadDay_absent_rating_counterexample:
  "moodRating
     (loadDayData \<lparr>year = 2024, month = 3, day = 1, ms = 0\<rparr> []
        ((initialDailyLog \<lparr>year = 2024, month = 2, day = 29, ms = 0\<rparr>)
           \<lparr>moodRating := Some 8\<rparr>)) = Some 5 \<and>
   truthyNumber
     (moodRating
        (loadDayData \<lparr>year = 2024, month = 3, day = 1, ms = 0\<rparr> []
           ((initialDailyLog \<lparr>year = 2024, month = 2, day = 29, ms = 0\<rparr>)
              \<lparr>moodRating := Some 8\<rparr>)))"
  by (simp add: loadDayData_def getItem_def initialDailyLog_def)

text \<open>
  Claim C6, amended. For a date without a stored record \<open>loadDayData\<close> sets the defaults: no
  food entries, no workout, empty notes and the mood rating 5. To \<open>loadDayData\<close> the absence
  of a record is the same as a stored record that holds exactly these defaults.
\<close>

theorem loadDay_defaults:
  assumes "getItem store (getStorageKey d) = None"
  shows "dayDataOf (loadDayData d store st) =
           \<lparr>foodEntries = [], workoutDone = False, workoutNote = [], moodRating = Some 5,
            moodNote = []\<rparr> \<and>
         loadDayData d store st =
           loadDayData d
             (setItem (getStorageKey d)
                \<lparr>foodEntries = [], workoutDone = False, workoutNote = [],
                 moodRating = Some 5, moodNote = []\<rparr> store) st"
  using assms by (simp add: loadDayData_def dayDataOf_def getItem_setItem)

theorem loadDay_defaults_witness:
  "getItem [] (getStorageKey \<lparr>year = 2024, month = 3, day = 2, ms = 0\<rparr>) = None \<and>
   dayDataOf
     (loadDayData \<lparr>year = 2024, month = 3, day = 2, ms = 0\<rparr> []
        (initialDailyLog \<lparr>year = 2024, month = 3, day = 2, ms = 0\<rparr>)) =
     \<lparr>foodEntries = [], workoutDone = False, workoutNote = [], moodRating = Some 5,
      moodNote = []\<rparr>"
proof -
  have absent: "getItem [] (getStorageKey \<lparr>year = 2024, month = 3, day = 2, ms = 0\<rparr>) = None"
    by (simp add: getItem_def)
  from loadDay_defaults
         [OF absent, where st = "initialDailyLog \<lparr>year = 2024, month = 3, day = 2, ms = 0\<rparr>"]
       absent
  show ?thesis
    by blast
qed




section \<open>Order of the food entries\<close>

text \<open>Adding an entry sorts the entries by time, and deleting one keeps them sorted.\<close>

lemma handleSaveEntry_add_sorted:
  "editingEntry st = None \<Longrightarrow>
     sorted (map time (foodEntries (handleSaveEntry now entryName entryTime st)))"
  by (simp add: handleSaveEntry_def Let_def)

lemma handleDeleteFood_sorted:
  "sorted (map time (foodEntries st)) \<Longrightarrow>
     sorted (map time (foodEntries (handleDeleteFood i st)))"
  by (simp add: handleDeleteFood_def sorted_filter)

text \<open>
  Claim C8 at an edit. The day 2024-03-02 holds Toast at 08:00 and Soup at 12:00, in this
  order. Editing Toast to 13:00 replaces its time in place: the entries are then Toast at
  13:00 followed by Soup at 12:00, which is not ascending.
\<close>

theorem handleSaveEntry_edit_unsorted:
  "sorted (map time (foodEntries breakfastDay)) \<and>
   map time
     (foodEntries
        (handleSaveEntry 1709300000000 ''Toast''
           \<lparr>year = 2024, month = 3, day = 2, ms = 46800000\<rparr> breakfastDay)) =
     [1709384400000, 1709380800000] \<and>
   \<not> sorted
     (map time
        (foodEntries
           (handleSaveEntry 1709300000000 ''Toast''
              \<lparr>year = 2024, month = 3, day = 2, ms = 46800000\<rparr> breakfastDay)))"
  by (simp add: handleSaveEntry_def breakfastDay_def date_eval)


section \<open>Month navigation\<close>

text \<open>
  A next-month request never selects a date later than now, and it is ignored while the
  selected date lies in the current month.
\<close>

lemma handleMonthChange_not_future:
  "dateLe (selectedMonth st) now \<Longrightarrow>
     dateLe (selectedMonth (handleMonthChange Next now store st)) now"
  by (simp add: handleMonthChange_def Let_def dateGt_def)

lemma handleMonthChange_current_month_rejected:
  assumes "year (selectedMonth st) = year now" and "month (selectedMonth st) = month now"
    and "1 \<le> month now" and "month now \<le> 12"
  shows "handleMonthChange Next now store st = st"
proof -
  have "dateGt (addMonths (selectedMonth st) 1) now"
  proof (cases "month now = 12")
    case True
    have "(year now * 12 + 11 + 1) div 12 = year now + 1"
      by simp
    with True assms show ?thesis
      by (simp add: addMonths_def Let_def dateGt_def dateLe_def)
  next
    case False
    with assms have eq: "int (month now) - 1 + 1 = int (month now)" and lt: "int (month now) < 12"
      by simp_all
    have d: "(year now * 12 + int (month now)) div 12 = year now"
      using lt assms(3) by simp
    have m: "(year now * 12 + int (month now)) mod 12 = int (month now)"
      using lt assms(3) by simp
    from assms d m show ?thesis
      by (simp add: addMonths_def Let_def dateGt_def dateLe_def add.assoc)
  qed
  then show ?thesis
    by (simp add: handleMonthChange_def Let_def)
qed

text \<open>
  Claim C9 when the screen outlives the month. The statistics screen was opened on
  2024-03-31 at 10:00, so March is selected; it is now 2024-04-01, 09:00. The next-month
  button is enabled, since March is not the current month, and April is the current month,
  not a future one. The request is nevertheless ignored: \<open>addMonths\<close> gives 2024-04-30
  10:00, which is later than now, and the selected month stays March.
\<close>

theorem handleMonthChange_current_month_unreachable:
  "\<not> isCurrentMonth \<lparr>year = 2024, month = 4, day = 1, ms = 32400000\<rparr> shownMarch \<and>
   format_yyyy_MM (addMonths (selectedMonth shownMarch) 1) =
     format_yyyy_MM \<lparr>year = 2024, month = 4, day = 1, ms = 32400000\<rparr> \<and>
   pressNextMonth \<lparr>year = 2024, month = 4, day = 1, ms = 32400000\<rparr> store shownMarch =
     shownMarch"
proof -
  have sel: "selectedMonth shownMarch = \<lparr>year = 2024, month = 3, day = 31, ms = 36000000\<rparr>"
    by (simp add: shownMarch_def initialStats_def)
  have nm: "addMonths \<lparr>year = 2024, month = 3, day = 31, ms = 36000000\<rparr> 1 =
      \<lparr>year = 2024, month = 4, day = 30, ms = 36000000\<rparr>"
    by (simp add: addMonths_def getDaysInMonth_def Let_def)
  have gt: "dateGt \<lparr>year = 2024, month = 4, day = 30, ms = 36000000\<rparr>
      \<lparr>year = 2024, month = 4, day = 1, ms = 32400000\<rparr>"
    by (simp add: dateGt_def dateLe_def)
  have cur: "\<not> isCurrentMonth \<lparr>year = 2024, month = 4, day = 1, ms = 32400000\<rparr> shownMarch"
    by (simp add: isCurrentMonth_def sel date_eval)
  have fmt: "format_yyyy_MM \<lparr>year = 2024, month = 4, day = 30, ms = 36000000\<rparr> =
      format_yyyy_MM \<lparr>year = 2024, month = 4, day = 1, ms = 32400000\<rparr>"
    by (simp add: format_yyyy_MM_def format_yyyy_def format_MM_def)
  have "handleMonthChange Next \<lparr>year = 2024, month = 4, day = 1, ms = 32400000\<rparr> store
      shownMarch = shownMarch"
    using gt by (simp add: handleMonthChange_def Let_def sel nm)
  with cur fmt show ?thesis
    by (simp add: pressNextMonth_def sel nm)
qed


section \<open>The days of a month\<close>

text \<open>
  Stepping by \<open>addDays\<close> from a day of a month to the end of that month visits the days of
  the month in order and stops with the last one.
\<close>

lemma dateLe_same_month:
  "year a = year b \<Longrightarrow> month a = month b \<Longrightarrow>
     dateLe a b = (day a < day b \<or> (day a = day b \<and> ms a \<le> ms b))"
  by (auto simp: dateLe_def)

lemma nextDay_in_month:
  "day c < getDaysInMonth (year c) (month c) \<Longrightarrow> nextDay c = c\<lparr>day := Suc (day c)\<rparr>"
  by (simp add: nextDay_def)

lemma nextDay_leaves_month:
  "\<not> day c < getDaysInMonth (year c) (month c) \<Longrightarrow> year e = year c \<Longrightarrow> month e = month c \<Longrightarrow>
     \<not> dateLe (nextDay c) e"
  by (auto simp: nextDay_def dateLe_def)

lemma eachDayLoop_month:
  assumes "k \<le> getDaysInMonth (year d) (month d)"
  shows "eachDayLoop (d\<lparr>day := k, ms := 0\<rparr>) (endOfMonth d) =
           map (\<lambda>j. d\<lparr>day := j, ms := 0\<rparr>) [k..<Suc (getDaysInMonth (year d) (month d))]"
  using assms
proof (induction "getDaysInMonth (year d) (month d) - k" arbitrary: k)
  case 0
  then have k: "k = getDaysInMonth (year d) (month d)"
    by simp
  have le: "dateLe (d\<lparr>day := k, ms := 0\<rparr>) (endOfMonth d)"
    by (simp add: dateLe_same_month endOfMonth_def k)
  have "\<not> dateLe (nextDay (d\<lparr>day := k, ms := 0\<rparr>)) (endOfMonth d)"
    by (rule nextDay_leaves_month) (simp_all add: k endOfMonth_def)
  then have "eachDayLoop (nextDay (d\<lparr>day := k, ms := 0\<rparr>)) (endOfMonth d) = []"
    by (simp add: eachDayLoop.simps)
  with le have "eachDayLoop (d\<lparr>day := k, ms := 0\<rparr>) (endOfMonth d) = [d\<lparr>day := k, ms := 0\<rparr>]"
    by (subst eachDayLoop.simps) (simp add: addDays_Suc_0)
  then show ?case
    by (simp add: k)
next
  case (Suc n)
  then have lt: "k < getDaysInMonth (year d) (month d)"
    by simp
  have le: "dateLe (d\<lparr>day := k, ms := 0\<rparr>) (endOfMonth d)"
    using lt by (simp add: dateLe_same_month endOfMonth_def)
  have nx: "nextDay (d\<lparr>day := k, ms := 0\<rparr>) = d\<lparr>day := Suc k, ms := 0\<rparr>"
    using lt by (simp add: nextDay_in_month)
  have ih: "eachDayLoop (d\<lparr>day := Suc k, ms := 0\<rparr>) (endOfMonth d) =
      map (\<lambda>j. d\<lparr>day := j, ms := 0\<rparr>) [Suc k..<Suc (getDaysInMonth (year d) (month d))]"
    using Suc.hyps(1) [of "Suc k"] Suc.hyps(2) lt by simp
  have "eachDayLoop (d\<lparr>day := k, ms := 0\<rparr>) (endOfMonth d) =
      d\<lparr>day := k, ms := 0\<rparr> # eachDayLoop (d\<lparr>day := Suc k, ms := 0\<rparr>) (endOfMonth d)"
    using le by (subst eachDayLoop.simps) (simp add: addDays_Suc_0 nx)
  with ih lt show ?case
    by (simp add: upt_conv_Cons)
qed


lemma format_ignores_ms: "format_yyyy_MM_dd (d\<lparr>ms := t\<rparr>) = format_yyyy_MM_dd d"
  by (simp add: format_yyyy_MM_dd_def format_yyyy_def format_MM_def format_dd_def)

lemma format_dd_day: "format_dd (d\<lparr>day := j, ms := t\<rparr>) = addLeadingZeros j 2"
  by (simp add: format_dd_def)

lemma eachDayOfInterval_month:
  "eachDayOfInterval (startOfMonth d) (endOfMonth d) =
     map (\<lambda>j. d\<lparr>day := j, ms := 0\<rparr>) [1..<Suc (getDaysInMonth (year d) (month d))]"
proof -
  have one: "Suc 0 \<le> getDaysInMonth (year d) (month d)"
    using getDaysInMonth_ge_28 [of "year d" "month d"] by simp
  from eachDayLoop_month [OF one] show ?thesis
    by (simp add: eachDayOfInterval_def startOfMonth_def)
qed


section \<open>The chart series\<close>

lemma loadChartDataForMonth_series:
  "dailyMoodData (loadChartDataForMonth d store st) =
     map (\<lambda>k. \<lparr>date = addLeadingZeros k 2,
                score = (case getItem store (getStorageKey (d\<lparr>day := k\<rparr>)) of
                           None \<Rightarrow> 0
                         | Some dayData \<Rightarrow>
                             if truthyNumber (moodRating dayData) then the (moodRating dayData)
                             else 0)\<rparr>)
       [1..<Suc (getDaysInMonth (year d) (month d))]"
  unfolding loadChartDataForMonth_def Let_def eachDayOfInterval_month
  by (auto simp: getStorageKey_def format_ignores_ms format_dd_day split: option.split)

text \<open>
  Claim C3. For every store and every date \<open>d\<close>, the series that \<open>loadChartDataForMonth\<close>
  leaves in \<open>dailyMoodData\<close> has one point for each day 1, 2, ... of the month of \<open>d\<close>, in
  this order and up to the last day of the month, wherever today lies. The point of a day
  is labelled with the two-digit day and carries the stored rating when the day has a
  record with a truthy rating, and 0 otherwise.
\<close>

theorem getMonthSeries_whole_month:
  "dailyMoodData (loadChartDataForMonth d store st) =
     map (\<lambda>k. \<lparr>date = addLeadingZeros k 2,
                score = (case getItem store (getStorageKey (d\<lparr>day := k\<rparr>)) of
                           None \<Rightarrow> 0
                         | Some dayData \<Rightarrow>
                             if truthyNumber (moodRating dayData) then the (moodRating dayData)
                             else 0)\<rparr>)
       [1..<Suc (getDaysInMonth (year d) (month d))] \<and>
   length (dailyMoodData (loadChartDataForMonth d store st)) =
     getDaysInMonth (year d) (month d)"
  by (simp add: loadChartDataForMonth_series)


section \<open>The monthly averages\<close>

lemma foldl_add_sum_list: "foldl (+) a xs = a + sum_list xs" for a :: int
  by (induction xs arbitrary: a) simp_all

lemma averageOf_spec_mean: "averageOf moods = spec_mean moods"
  by (simp add: averageOf_def spec_mean_def foldl_add_sum_list)

lemma getStorageKey_fields:
  "getStorageKey d = getStorageKey \<lparr>year = year d, month = month d, day = day d, ms = 0\<rparr>"
  by (simp add: getStorageKey_def format_yyyy_MM_dd_def format_yyyy_def format_MM_def format_dd_def)

lemma pushMood_spec:
  "pushMood store d moods = moods @ spec_dayRatings store (year d) (month d) (day d)"
proof -
  have "''dayData_'' @ format_yyyy_MM_dd d =
      getStorageKey \<lparr>year = year d, month = month d, day = day d, ms = 0\<rparr>"
    using getStorageKey_fields [of d] by (simp only: getStorageKey_def)
  then show ?thesis
    unfolding pushMood_def spec_dayRatings_def
    by (auto split: option.split)
qed

lemma currentMonthLoop_month:
  assumes "day d \<le> getDaysInMonth (year d) (month d)" and "k \<le> Suc (day d)"
  shows "currentMonthLoop store (d\<lparr>day := k, ms := 0\<rparr>) (endOfMonth d) d moods =
           moods @ concat (map (spec_dayRatings store (year d) (month d)) [k..<Suc (day d)])"
  using assms(2)
proof (induction "Suc (day d) - k" arbitrary: k moods)
  case 0
  then have "\<not> dateLe (d\<lparr>day := k, ms := 0\<rparr>) d"
    by (simp add: dateLe_same_month)
  with 0 show ?case
    by (subst currentMonthLoop.simps) simp
next
  case (Suc n)
  let ?cur = "d\<lparr>day := k, ms := 0\<rparr>"
  from Suc.hyps(2) have kd: "k \<le> day d"
    by simp
  with assms(1) have le1: "dateLe ?cur (endOfMonth d)"
    by (auto simp: dateLe_same_month endOfMonth_def)
  from kd have le2: "dateLe ?cur d"
    by (auto simp: dateLe_same_month)
  have step: "currentMonthLoop store ?cur (endOfMonth d) d moods =
      currentMonthLoop store (nextDay ?cur) (endOfMonth d) d
        (moods @ spec_dayRatings store (year d) (month d) k)"
    using le1 le2 by (subst currentMonthLoop.simps) (simp add: addDays_Suc_0 pushMood_spec)
  have up: "[k..<Suc (day d)] = k # [Suc k..<Suc (day d)]"
    using kd by (simp add: upt_conv_Cons)
  show ?case
  proof (cases "k < getDaysInMonth (year d) (month d)")
    case True
    then have nx: "nextDay ?cur = d\<lparr>day := Suc k, ms := 0\<rparr>"
      by (simp add: nextDay_in_month)
    have "k < day d \<or> k = day d"
      using kd by auto
    have sk: "Suc k \<le> Suc (day d)"
      using kd by simp
    have n: "n = Suc (day d) - Suc k"
      using Suc.hyps(2) by simp
    from Suc.hyps(1) [OF n sk] step nx up show ?thesis
      by simp
  next
    case False
    with kd assms(1) have kdd: "k = day d"
      by simp
    from False have "\<not> dateLe (nextDay ?cur) (endOfMonth d)"
      by (intro nextDay_leaves_month) (simp_all add: endOfMonth_def)
    then have "currentMonthLoop store (nextDay ?cur) (endOfMonth d) d
        (moods @ spec_dayRatings store (year d) (month d) k) =
        moods @ spec_dayRatings store (year d) (month d) k"
      by (subst currentMonthLoop.simps) simp
    with step kdd show ?thesis
      by simp
  qed
qed

lemma previousMonthLoop_month:
  assumes "k \<le> Suc (getDaysInMonth (year p) (month p))"
  shows "previousMonthLoop store (p\<lparr>day := k, ms := 0\<rparr>) (endOfMonth p) moods =
           moods @ concat (map (spec_dayRatings store (year p) (month p))
                             [k..<Suc (getDaysInMonth (year p) (month p))])"
  using assms
proof (induction "Suc (getDaysInMonth (year p) (month p)) - k" arbitrary: k moods)
  case 0
  then have "\<not> dateLe (p\<lparr>day := k, ms := 0\<rparr>) (endOfMonth p)"
    by (simp add: dateLe_same_month endOfMonth_def)
  with 0 show ?case
    by (subst previousMonthLoop.simps) simp
next
  case (Suc n)
  let ?cur = "p\<lparr>day := k, ms := 0\<rparr>"
  from Suc.hyps(2) have kd: "k \<le> getDaysInMonth (year p) (month p)"
    by simp
  then have le1: "dateLe ?cur (endOfMonth p)"
    by (auto simp: dateLe_same_month endOfMonth_def)
  have step: "previousMonthLoop store ?cur (endOfMonth p) moods =
      previousMonthLoop store (nextDay ?cur) (endOfMonth p)
        (moods @ spec_dayRatings store (year p) (month p) k)"
    using le1 by (subst previousMonthLoop.simps) (simp add: addDays_Suc_0 pushMood_spec)
  have up: "[k..<Suc (getDaysInMonth (year p) (month p))] =
      k # [Suc k..<Suc (getDaysInMonth (year p) (month p))]"
    using kd by (simp add: upt_conv_Cons)
  show ?case
  proof (cases "k < getDaysInMonth (year p) (month p)")
    case True
    then have nx: "nextDay ?cur = p\<lparr>day := Suc k, ms := 0\<rparr>"
      by (simp add: nextDay_in_month)
    have sk: "Suc k \<le> Suc (getDaysInMonth (year p) (month p))"
      using kd by simp
    have n: "n = Suc (getDaysInMonth (year p) (month p)) - Suc k"
      using Suc.hyps(2) by simp
    from Suc.hyps(1) [OF n sk] step nx up show ?thesis
      by simp
  next
    case False
    with kd have kdd: "k = getDaysInMonth (year p) (month p)"
      by simp
    from False have "\<not> dateLe (nextDay ?cur) (endOfMonth p)"
      by (intro nextDay_leaves_month) (simp_all add: endOfMonth_def)
    then have "previousMonthLoop store (nextDay ?cur) (endOfMonth p)
        (moods @ spec_dayRatings store (year p) (month p) k) =
        moods @ spec_dayRatings store (year p) (month p) k"
      by (subst previousMonthLoop.simps) simp
    with step kdd show ?thesis
      by simp
  qed
qed


lemma currentMonthMoods_spec:
  assumes "validDate today"
  shows "currentMonthLoop store (startOfMonth today) (endOfMonth today) today [] =
           concat (map (spec_dayRatings store (year today) (month today)) [1..<Suc (day today)])"
proof -
  from assms have "day today \<le> getDaysInMonth (year today) (month today)"
    by (simp add: validDate_def)
  from currentMonthLoop_month [OF this, of 1 store "[]"] show ?thesis
    by (simp add: startOfMonth_def)
qed

lemma previousMonthMoods_spec:
  assumes "validDate today"
  shows "previousMonthLoop store (startOfMonth (subDays (startOfMonth today) 1))
           (endOfMonth (subDays (startOfMonth today) 1)) [] =
         (let (y, m) = spec_previousMonth today
          in concat (map (spec_dayRatings store y m) [1..<Suc (getDaysInMonth y m)]))"
proof -
  let ?p = "subDays (startOfMonth today) 1"
  from assms have m: "1 \<le> month today"
    by (simp add: validDate_def)
  have ym: "(year ?p, month ?p) = spec_previousMonth today"
    using m by (auto simp: subDays_Suc_0 prevDay_def startOfMonth_def spec_previousMonth_def)
  have e: "endOfMonth (startOfMonth ?p) = endOfMonth ?p"
    by (simp add: endOfMonth_def startOfMonth_def)
  have "previousMonthLoop store (?p\<lparr>day := 1, ms := 0\<rparr>) (endOfMonth ?p) [] =
      [] @ concat (map (spec_dayRatings store (year ?p) (month ?p))
                     [1..<Suc (getDaysInMonth (year ?p) (month ?p))])"
    by (rule previousMonthLoop_month) simp
  with ym [symmetric] show ?thesis
    by (simp add: startOfMonth_def)
qed

lemma trend_loadChartDataForMonth [simp]: "trend (loadChartDataForMonth d store st) = trend st"
  by (simp add: loadChartDataForMonth_def Let_def)

lemma calculateMoodAverages_currentAverage:
  "currentAverage (calculateMoodAverages today store st) =
     averageOf (currentMonthLoop store (startOfMonth today) (endOfMonth today) today [])"
  by (simp add: calculateMoodAverages_def Let_def)

lemma calculateMoodAverages_previousAverage:
  "previousAverage (calculateMoodAverages today store st) =
     averageOf (previousMonthLoop store (startOfMonth (subDays (startOfMonth today) 1))
                  (endOfMonth (subDays (startOfMonth today) 1)) [])"
  by (simp add: calculateMoodAverages_def Let_def)

lemma calculateMoodAverages_trend:
  "trend (calculateMoodAverages today store st) =
     determineTrend (currentAverage (calculateMoodAverages today store st))
       (previousAverage (calculateMoodAverages today store st)) (trend st)"
  by (simp add: calculateMoodAverages_def Let_def)

lemma midApril_valid: "validDate midApril"
  by (simp add: midApril_def validDate_def getDaysInMonth_def)

lemma midApril_current:
  "spec_mean (concat (map (spec_dayRatings twoMonths (year midApril) (month midApril))
                        [1..<Suc (day midApril)])) = Some 8"
proof -
  have "concat (map (spec_dayRatings twoMonths 2024 4) [1..<Suc 15]) = [8]"
    by (simp add: spec_dayRatings_def twoMonths_def store_eval date_eval upt_rec)
  then show ?thesis
    by (simp add: midApril_def spec_mean_def)
qed

lemma midApril_previous:
  "(let (y, m) = spec_previousMonth midApril
    in spec_mean (concat (map (spec_dayRatings twoMonths y m) [1..<Suc (getDaysInMonth y m)]))) =
   Some 6"
proof -
  have pm: "spec_previousMonth midApril = (2024, 3)"
    by (simp add: spec_previousMonth_def midApril_def)
  have dim: "getDaysInMonth 2024 3 = 31"
    by (simp add: getDaysInMonth_def)
  have "concat (map (spec_dayRatings twoMonths 2024 3) [1..<Suc 31]) = [6]"
    by (simp add: spec_dayRatings_def twoMonths_def store_eval date_eval upt_rec)
  then have "spec_mean (concat (map (spec_dayRatings twoMonths 2024 3) [1..<Suc 31])) = Some 6"
    by (simp add: spec_mean_def)
  then show ?thesis
    by (simp only: pm Let_def prod.case dim)
qed

text \<open>
  Claim C4. For a reference date \<open>today\<close>, the current average that
  \<open>calculateMoodAverages\<close> sets is the mean of the ratings that are set on the days from the
  first of the month of \<open>today\<close> up to and including the day of \<open>today\<close>; days after \<open>today\<close>
  are not read. The previous average is the mean of the ratings that are set on all days
  of the previous calendar month. A day without a record, without a rating or with the
  rating 0 contributes no sample, and an average over no sample is absent.
\<close>

theorem getMonthTrend_averages:
  assumes "validDate today"
  shows "currentAverage (calculateMoodAverages today store st) =
           spec_mean (concat (map (spec_dayRatings store (year today) (month today))
                                [1..<Suc (day today)])) \<and>
         previousAverage (calculateMoodAverages today store st) =
           (let (y, m) = spec_previousMonth today
            in spec_mean (concat (map (spec_dayRatings store y m)
                                    [1..<Suc (getDaysInMonth y m)])))"
  using currentMonthMoods_spec [OF assms, of store] previousMonthMoods_spec [OF assms, of store]
  by (simp add: calculateMoodAverages_currentAverage calculateMoodAverages_previousAverage
      averageOf_spec_mean split_def Let_def)

theorem getMonthTrend_averages_witness:
  "validDate midApril \<and>
   currentAverage (calculateMoodAverages midApril twoMonths (initialStats midApril)) = Some 8 \<and>
   previousAverage (calculateMoodAverages midApril twoMonths (initialStats midApril)) = Some 6"
proof -
  from getMonthTrend_averages [OF midApril_valid, of twoMonths "initialStats midApril"]
  have "currentAverage (calculateMoodAverages midApril twoMonths (initialStats midApril)) =
          Some 8 \<and>
        previousAverage (calculateMoodAverages midApril twoMonths (initialStats midApril)) =
          Some 6"
    by (simp only: midApril_current midApril_previous)
  with midApril_valid show ?thesis
    by blast
qed


section \<open>The trend\<close>

text \<open>From a state without a trend, an absent average leaves the trend absent.\<close>

lemma determineTrend_absent:
  "currentAvg = None \<or> previousAvg = None \<Longrightarrow> determineTrend currentAvg previousAvg old = old"
  by (auto simp: determineTrend_def)

lemma calculateMoodAverages_fresh_trend_absent:
  assumes "trend st = None"
    and "currentAverage (calculateMoodAverages today store st) = None \<or>
         previousAverage (calculateMoodAverages today store st) = None"
  shows "trend (calculateMoodAverages today store st) = None"
  using assms by (simp add: calculateMoodAverages_trend determineTrend_absent)

lemma april_ratings: "concat (map (spec_dayRatings twoMonths 2024 4) [1..<Suc 30]) = [8, 9]"
  by (simp add: spec_dayRatings_def twoMonths_def store_eval date_eval upt_rec)

lemma march_ratings: "concat (map (spec_dayRatings twoMonths 2024 3) [1..<Suc 31]) = [6]"
  by (simp add: spec_dayRatings_def twoMonths_def store_eval date_eval upt_rec)

lemma may_ratings: "concat (map (spec_dayRatings twoMonths 2024 5) [1..<Suc 1]) = []"
  by (simp add: spec_dayRatings_def twoMonths_def store_eval date_eval upt_rec)

lemma lateApril_averages:
  "currentAverage (calculateMoodAverages lateApril twoMonths st) = Some (17 / 2) \<and>
   previousAverage (calculateMoodAverages lateApril twoMonths st) = Some 6"
proof -
  have v: "validDate lateApril"
    by (simp add: lateApril_def validDate_def getDaysInMonth_def)
  have pm: "spec_previousMonth lateApril = (2024, 3)"
    by (simp add: spec_previousMonth_def lateApril_def)
  have dim: "getDaysInMonth 2024 3 = 31"
    by (simp add: getDaysInMonth_def)
  have c: "currentMonthLoop twoMonths (startOfMonth lateApril) (endOfMonth lateApril) lateApril [] =
      [8, 9]"
    using currentMonthMoods_spec [OF v, of twoMonths] april_ratings
    by (simp add: lateApril_def)
  have p: "previousMonthLoop twoMonths (startOfMonth (subDays (startOfMonth lateApril) 1))
      (endOfMonth (subDays (startOfMonth lateApril) 1)) [] = [6]"
    using march_ratings
    by (simp only: previousMonthMoods_spec [OF v] pm Let_def prod.case dim)
  show ?thesis
    by (simp only: calculateMoodAverages_currentAverage calculateMoodAverages_previousAverage c p)
       (simp add: averageOf_def)
qed

lemma earlyMay_averages:
  "currentAverage (calculateMoodAverages earlyMay twoMonths st) = None \<and>
   previousAverage (calculateMoodAverages earlyMay twoMonths st) = Some (17 / 2)"
proof -
  have v: "validDate earlyMay"
    by (simp add: earlyMay_def validDate_def getDaysInMonth_def)
  have pm: "spec_previousMonth earlyMay = (2024, 4)"
    by (simp add: spec_previousMonth_def earlyMay_def)
  have dim: "getDaysInMonth 2024 4 = 30"
    by (simp add: getDaysInMonth_def)
  have c: "currentMonthLoop twoMonths (startOfMonth earlyMay) (endOfMonth earlyMay) earlyMay [] = []"
    using currentMonthMoods_spec [OF v, of twoMonths] may_ratings
    by (simp add: earlyMay_def)
  have p: "previousMonthLoop twoMonths (startOfMonth (subDays (startOfMonth earlyMay) 1))
      (endOfMonth (subDays (startOfMonth earlyMay) 1)) [] = [8, 9]"
    using april_ratings
    by (simp only: previousMonthMoods_spec [OF v] pm Let_def prod.case dim)
  show ?thesis
    by (simp only: calculateMoodAverages_currentAverage calculateMoodAverages_previousAverage c p)
       (simp add: averageOf_def)
qed

text \<open>
  Claim C2 on a screen that stays mounted. The store holds ratings in March and April 2024.
  The invocation of 2024-04-30 finds both averages and sets the trend to \<open>up\<close>. The next
  invocation, on 2024-05-01, finds no rated day in May: the current average becomes absent,
  but no branch resets the trend, which is still \<open>up\<close>.
\<close>

theorem getMonthTrend_stale_trend:
  "trend (calculateMoodAverages lateApril twoMonths (initialStats lateApril)) = Some Up \<and>
   currentAverage
     (calculateMoodAverages earlyMay twoMonths
        (calculateMoodAverages lateApril twoMonths (initialStats lateApril))) = None \<and>
   trend
     (calculateMoodAverages earlyMay twoMonths
        (calculateMoodAverages lateApril twoMonths (initialStats lateApril))) = Some Up"
  by (simp add: calculateMoodAverages_trend lateApril_averages earlyMay_averages
      determineTrend_def)


section \<open>Visiting a day without a record\<close>

text \<open>
  After the effects of a date change the store holds, under the key of the selected date,
  the defaults when the date had no record, and the record it had otherwise.
\<close>

lemma selectedDate_loadDayData [simp]: "selectedDate (loadDayData d store st) = selectedDate st"
  by (simp add: loadDayData_def split: option.split)




lemma afterDateChange_present:
  assumes "getItem store (getStorageKey d) = Some dayData"
  shows "getItem (snd (afterDateChange d (st, store))) (getStorageKey d) = Some dayData"
  using assms
  by (simp add: afterDateChange_def Let_def saveDayData_def loadDayData_def dayDataOf_def
      getItem_setItem)







text \<open>
  A food entry logged on the visited day, with the rating left as it is, enters the
  correlation with the score 5.
\<close>

lemma teaDay_store:
  "snd teaDay =
     [(''dayData_2024-04-14'',
       \<lparr>foodEntries = [\<lparr>id' = ''1713110400000'', name = ''Tea'', time = 1713110400000\<rparr>],
        workoutDone = False, workoutNote = [], moodRating = Some 5, moodNote = []\<rparr>)]"
  apply (simp add: teaDay_def afterDateChange_def Let_def saveDayData_def loadDayData_def
      getItem_def setItem_def dayDataOf_def handleSaveEntry_def)
  apply (simp add: initialDailyLog_def)
  apply (simp add: visitedDay_def getStorageKey_def)
  apply (simp add: date_eval)
  done

lemma teaDay_correlation:
  "foodMoodCorrelations (snd teaDay) =
     [(''tea'', \<lparr>totalScore = 5, occurrences = 1, averageScore = 5\<rparr>)]"
  unfolding teaDay_store by (simp add: food_eval store_eval)


section \<open>The food-mood correlation\<close>

text \<open>
  While no food name lower-cases to a property of \<open>Object.prototype\<close>, the map that the
  loops build agrees, food by food, with the stat of the samples seen so far.
\<close>

lemma processEntry_stat:
  assumes inv: "\<And>food. map_of m food = spec_stat seen food"
    and ok: "toLowerCase (name e) \<notin> set objectPrototypeProperties"
  shows "map_of (processEntry r e m) food = spec_stat (seen @ [(toLowerCase (name e), r)]) food"
proof (cases "food = toLowerCase (name e)")
  case False
  then show ?thesis
    using inv [of food]
    by (auto simp: processEntry_def Let_def update_conv' spec_stat_def split: option.split)
next
  case True
  show ?thesis
  proof (cases "map_of m (toLowerCase (name e))")
    case None
    with inv [of "toLowerCase (name e)"]
    have "map snd (filter (\<lambda>p. fst p = toLowerCase (name e)) seen) = []"
      by (simp add: spec_stat_def Let_def split: if_splits)
    with None ok True show ?thesis
      by (simp add: processEntry_def Let_def update_conv' spec_stat_def addScore_def)
  next
    case (Some s)
    with inv [of "toLowerCase (name e)"]
    have s: "map snd (filter (\<lambda>p. fst p = toLowerCase (name e)) seen) \<noteq> []"
      "s = \<lparr>totalScore = sum_list (map snd (filter (\<lambda>p. fst p = toLowerCase (name e)) seen)),
            occurrences = length (map snd (filter (\<lambda>p. fst p = toLowerCase (name e)) seen)),
            averageScore =
              of_int (sum_list (map snd (filter (\<lambda>p. fst p = toLowerCase (name e)) seen))) /
              of_nat (length (map snd (filter (\<lambda>p. fst p = toLowerCase (name e)) seen)))\<rparr>"
      by (simp_all add: spec_stat_def Let_def split: if_splits)
    from Some True s(1) show ?thesis
      by (simp add: processEntry_def Let_def update_conv' spec_stat_def addScore_def s(2))
  qed
qed

lemma fold_processEntry_stat:
  assumes "\<And>food. map_of m food = spec_stat seen food"
    and "\<forall>e\<in>set es. toLowerCase (name e) \<notin> set objectPrototypeProperties"
  shows "map_of (fold (processEntry r) es m) food =
           spec_stat (seen @ map (\<lambda>e. (toLowerCase (name e), r)) es) food"
  using assms
proof (induction es arbitrary: m seen food)
  case Nil
  then show ?case by simp
next
  case (Cons e es)
  have "\<And>food. map_of (processEntry r e m) food =
      spec_stat (seen @ [(toLowerCase (name e), r)]) food"
    using Cons.prems by (intro processEntry_stat) simp_all
  from Cons.IH [OF this] Cons.prems(2) show ?case
    by simp
qed

lemma fold_processDay_stat:
  assumes "distinct (map fst store)" and "set recs \<subseteq> set store"
    and "\<And>food. map_of m food = spec_stat seen food"
    and "\<forall>p\<in>set (spec_samples recs). fst p \<notin> set objectPrototypeProperties"
  shows "map_of (fold (processDay store) (filter (prefix ''dayData_'') (map fst recs)) m) food =
           spec_stat (seen @ spec_samples recs) food"
  using assms(2-)
proof (induction recs arbitrary: m seen food)
  case Nil
  then show ?case by (simp add: spec_samples_def)
next
  case (Cons rec recs)
  obtain key dayData where rec: "rec = (key, dayData)"
    by (cases rec)
  note prems = Cons.prems [unfolded rec]
  from prems(1) assms(1) have stored: "getItem store key = Some dayData"
    by (simp add: getItem_def)
  let ?here = "if prefix ''dayData_'' key \<and> truthyNumber (moodRating dayData)
    then map (\<lambda>entry. (toLowerCase (name entry), the (moodRating dayData))) (foodEntries dayData)
    else []"
  have split: "spec_samples ((key, dayData) # recs) = ?here @ spec_samples recs"
    by (simp add: spec_samples_def)
  have rest: "\<forall>p\<in>set (spec_samples recs). fst p \<notin> set objectPrototypeProperties"
    using prems(3) by (simp add: split)
  have sub: "set recs \<subseteq> set store"
    using prems(1) by simp
  show ?case
  proof (cases "prefix ''dayData_'' key \<and> truthyNumber (moodRating dayData)")
    case True
    have names: "\<forall>e\<in>set (foodEntries dayData).
        toLowerCase (name e) \<notin> set objectPrototypeProperties"
    proof
      fix e
      assume "e \<in> set (foodEntries dayData)"
      with True have "(toLowerCase (name e), the (moodRating dayData)) \<in>
          set (spec_samples ((key, dayData) # recs))"
        by (simp add: split)
      with prems(3)
      have "fst (toLowerCase (name e), the (moodRating dayData)) \<notin>
          set objectPrototypeProperties"
        by blast
      then show "toLowerCase (name e) \<notin> set objectPrototypeProperties"
        by simp
    qed
    have "\<And>food. map_of (processDay store key m) food = spec_stat (seen @ ?here) food"
      using True fold_processEntry_stat [OF prems(2) names]
      by (simp add: processDay_def stored truthyArray_def)
    from Cons.IH [OF sub this rest] True show ?thesis
      by (simp add: rec split)
  next
    case False
    then have here: "spec_samples ((key, dayData) # recs) = spec_samples recs"
      by (auto simp: split)
    from False have "fold (processDay store)
        (filter (prefix ''dayData_'') (map fst ((key, dayData) # recs))) m =
        fold (processDay store) (filter (prefix ''dayData_'') (map fst recs)) m"
      by (auto simp: processDay_def stored)
    with Cons.IH [OF sub prems(2) rest, of food] show ?thesis
      by (simp only: rec here)
  qed
qed

lemma foodMoodCorrelations_stat:
  assumes "distinct (getAllKeys store)"
    and "\<forall>p\<in>set (spec_samples store). fst p \<notin> set objectPrototypeProperties"
  shows "map_of (foodMoodCorrelations store) food = spec_stat (spec_samples store) food"
proof -
  have "foodMoodCorrelations store =
      fold (processDay store) (filter (prefix ''dayData_'') (map fst store)) []"
    by (simp add: foodMoodCorrelations_def Let_def getAllKeys_def)
  moreover have "map_of (fold (processDay store) (filter (prefix ''dayData_'') (map fst store)) [])
      food = spec_stat ([] @ spec_samples store) food"
    using assms by (intro fold_processDay_stat) (simp_all add: getAllKeys_def spec_stat_def)
  ultimately show ?thesis
    by simp
qed


lemma foodMoodCorrelations_scenario:
  "foodMoodCorrelations scenario =
     [(''pizza'', \<lparr>totalScore = 12, occurrences = 2, averageScore = 6\<rparr>),
      (''salad'', \<lparr>totalScore = 4, occurrences = 1, averageScore = 4\<rparr>)]"
  by (simp add: scenario_def food_eval store_eval)

text \<open>
  Claim C1 at a food whose lower-cased name is a property of \<open>Object.prototype\<close>. The store
  holds one day, rated 8, with the single entry Constructor. The claim gives the food
  \<open>constructor\<close> one occurrence with the scores 8 and 8.0; the map the code builds has no
  property at all, since \<open>foodMoodMap['constructor']\<close> is the inherited, truthy
  \<open>Object\<close> function and the stat is never created.
\<close>

theorem foodMoodCorrelations_inherited_name:
  "foodMoodCorrelations constructorDay = [] \<and>
   spec_stat (spec_samples constructorDay) ''constructor'' =
     Some \<lparr>totalScore = 8, occurrences = 1, averageScore = 8\<rparr>"
  by (simp add: constructorDay_def food_eval store_eval spec_stat_def spec_samples_def)

end
